theory Spec2Isabelle
  imports Complex_Main
begin

section \<open>Values and errors\<close>

text \<open>
  The upstream answer is whatever \<^verbatim>\<open>response.json()\<close> decodes: a JSON value as a Python
  object. A decoded object has string keys, each at most once, so a dict is an association
  list read with \<open>map_of\<close>. A Python \<^verbatim>\<open>str\<close> is carried as its UTF-8 bytes: the encoding is
  injective and respects concatenation, so equality and containment of texts are kept.
\<close>

datatype pyval =
    PyNone
  | PyBool bool
  | PyInt int
  | PyFloat real
  | PyStr string
  | PyList "pyval list"
  | PyDict "(string \<times> pyval) list"

text \<open>Truth value of an object, as \<^verbatim>\<open>not x\<close>, \<^verbatim>\<open>x or y\<close> and \<^verbatim>\<open>all\<close> take it.\<close>

fun truthy :: "pyval \<Rightarrow> bool" where
  "truthy PyNone = False"
| "truthy (PyBool b) = b"
| "truthy (PyInt n) = (n \<noteq> 0)"
| "truthy (PyFloat r) = (r \<noteq> 0)"
| "truthy (PyStr s) = (s \<noteq> [])"
| "truthy (PyList xs) = (xs \<noteq> [])"
| "truthy (PyDict kvs) = (kvs \<noteq> [])"

text \<open>
  Exceptions raised by the libraries (\<^verbatim>\<open>requests\<close>, the JSON decoder, \<^verbatim>\<open>telegram\<close>) are
  opaque: only their class name is kept. They are subclasses of \<^verbatim>\<open>Exception\<close>.
\<close>

datatype lib_exn = Lib_exn string

text \<open>
  The exceptions of the program. The fixed message texts of the source are part of the
  constructor: \<open>TypeError_no_dict\<close> is \<^verbatim>\<open>TypeError\<close> of line 94, \<open>KeyError_missing_keys\<close>
  is \<^verbatim>\<open>KeyError\<close> of line 100, \<open>TypeError_homeworks_not_list\<close> is \<^verbatim>\<open>TypeError\<close> of line 104,
  \<open>KeyError_no_homework_name\<close> and \<open>KeyError_no_status\<close> are lines 118 and 121,
  \<open>APIResponseError\<close> is line 129. \<open>APIStatusCodeError\<close> carries the three values its
  message interpolates (status code, reason, body text); \<open>YandeksError\<close> and
  \<open>TelegramError\<close> carry their cause (\<^verbatim>\<open>raise ... from error\<close>).
  \<open>AttributeError_no_get\<close> is what Python raises for \<^verbatim>\<open>x.get\<close> on an object that is not a
  dict, \<open>TypeError_unhashable\<close> what it raises for \<^verbatim>\<open>x in d\<close> with \<^verbatim>\<open>x\<close> a list or a dict.
\<close>

datatype error =
    TypeError_no_dict
  | KeyError_missing_keys
  | TypeError_homeworks_not_list
  | KeyError_no_homework_name
  | KeyError_no_status
  | APIResponseError
  | AttributeError_no_get
  | TypeError_unhashable
  | Library lib_exn
  | APIStatusCodeError int string string
  | YandeksError error
  | TelegramError error

text \<open>
  Modelled from the spec: the module \<^verbatim>\<open>exceptions\<close>, which declares the classes
  \<^verbatim>\<open>APIResponseError\<close>, \<^verbatim>\<open>APIStatusCodeError\<close>, \<^verbatim>\<open>YandeksError\<close> and \<^verbatim>\<open>TelegramError\<close>, is
  not among the sources. The spec has them as distinct error kinds, the notification
  failure being told apart from all the others; so they are four unrelated subclasses
  of \<^verbatim>\<open>Exception\<close>. \<open>is_Exception\<close> is what \<^verbatim>\<open>except Exception\<close> catches and
  \<open>is_TelegramError\<close> what \<^verbatim>\<open>except TelegramError\<close> catches.
\<close>

fun is_Exception :: "error \<Rightarrow> bool" where
  "is_Exception e = True"

fun is_TelegramError :: "error \<Rightarrow> bool" where
  "is_TelegramError (TelegramError c) = True"
| "is_TelegramError e = False"

section \<open>Module state and constants\<close>

datatype State = INITIAL | RUNNING | STOPPED

text \<open>
  The process environment after \<^verbatim>\<open>load_dotenv()\<close>; \<^verbatim>\<open>os.getenv\<close> gives \<open>None\<close> for a
  variable that is not set.
\<close>

type_synonym environ = "string \<Rightarrow> string option"

definition PRACTICUM_TOKEN :: "environ \<Rightarrow> string option" where
  "PRACTICUM_TOKEN env = env ''PRACTICUM_TOKEN''"

definition TELEGRAM_TOKEN :: "environ \<Rightarrow> string option" where
  "TELEGRAM_TOKEN env = env ''TELEGA_TOKEN''"

definition TELEGRAM_CHAT_ID :: "environ \<Rightarrow> string option" where
  "TELEGRAM_CHAT_ID env = env ''MY_ID''"

definition RETRY_TIME :: int where
  "RETRY_TIME = 600"

text \<open>
  The Cyrillic texts of \<^verbatim>\<open>HOMEWORK_STATUSES\<close> and of the message of \<^verbatim>\<open>parse_status\<close>, as
  UTF-8 bytes. \<open>message_head\<close> is the text up to and including the opening double quote,
  \<open>message_mid\<close> is the closing double quote, the full stop and the space.
\<close>

definition verdict_approved :: string where
  "verdict_approved = map char_of
    [208, 160, 208, 176, 208, 177, 208, 190, 209, 130, 208, 176, 32, 208, 191, 209, 128,
     208, 190, 208, 178, 208, 181, 209, 128, 208, 181, 208, 189, 208, 176, 58, 32, 209,
     128, 208, 181, 208, 178, 209, 140, 209, 142, 208, 181, 209, 128, 209, 131, 32, 208,
     178, 209, 129, 209, 145, 32, 208, 191, 208, 190, 208, 189, 209, 128, 208, 176, 208,
     178, 208, 184, 208, 187, 208, 190, 209, 129, 209, 140, 46, 32, 208, 163, 209, 128,
     208, 176, 33 :: nat]"

definition verdict_reviewing :: string where
  "verdict_reviewing = map char_of
    [208, 160, 208, 176, 208, 177, 208, 190, 209, 130, 208, 176, 32, 208, 178, 208, 183,
     209, 143, 209, 130, 208, 176, 32, 208, 189, 208, 176, 32, 208, 191, 209, 128, 208,
     190, 208, 178, 208, 181, 209, 128, 208, 186, 209, 131, 32, 209, 128, 208, 181, 208,
     178, 209, 140, 209, 142, 208, 181, 209, 128, 208, 190, 208, 188, 46 :: nat]"

definition verdict_rejected :: string where
  "verdict_rejected = map char_of
    [208, 160, 208, 176, 208, 177, 208, 190, 209, 130, 208, 176, 32, 208, 191, 209, 128,
     208, 190, 208, 178, 208, 181, 209, 128, 208, 181, 208, 189, 208, 176, 58, 32, 209,
     131, 32, 209, 128, 208, 181, 208, 178, 209, 140, 209, 142, 208, 181, 209, 128, 208,
     176, 32, 208, 181, 209, 129, 209, 130, 209, 140, 32, 208, 183, 208, 176, 208, 188,
     208, 181, 209, 135, 208, 176, 208, 189, 208, 184, 209, 143, 46 :: nat]"

definition message_head :: string where
  "message_head = map char_of
    [208, 152, 208, 183, 208, 188, 208, 181, 208, 189, 208, 184, 208, 187, 209, 129,
     209, 143, 32, 209, 129, 209, 130, 208, 176, 209, 130, 209, 131, 209, 129, 32, 208,
     191, 209, 128, 208, 190, 208, 178, 208, 181, 209, 128, 208, 186, 208, 184, 32, 209,
     128, 208, 176, 208, 177, 208, 190, 209, 130, 209, 139, 32, 34 :: nat]"

definition message_mid :: string where
  "message_mid = map char_of
    [34, 46, 32 :: nat]"

definition HOMEWORK_STATUSES :: "(string \<times> string) list" where
  "HOMEWORK_STATUSES =
     [(''approved'', verdict_approved),
      (''reviewing'', verdict_reviewing),
      (''rejected'', verdict_rejected)]"

section \<open>The outside world\<close>

text \<open>
  An HTTP response as the program reads it. \<open>json_body\<close> is the result of
  \<^verbatim>\<open>response.json()\<close>: \<open>Inl\<close> when the body does not decode; \<open>body_text\<close> is
  \<^verbatim>\<open>response.text\<close>.
\<close>

record response =
  status_code :: int
  reason :: string
  body_text :: string
  json_body :: "lib_exn + pyval"

text \<open>
  What does not change while the process runs: the environment, how Python formats an
  object that is not a string inside an f-string, whether \<^verbatim>\<open>telegram.Bot(token=...)\<close> raises,
  and the clock reading \<^verbatim>\<open>int(time.time())\<close> of line 162.
\<close>

record runtime =
  environ :: environ
  py_format :: "pyval \<Rightarrow> string"
  telegram_Bot :: "string option \<Rightarrow> lib_exn option"
  start_time :: int

text \<open>
  What one pass of the loop meets: whether the control thread has stored \<open>STOPPED\<close> since
  the last check of the state, the clock, the answer of \<^verbatim>\<open>requests.get\<close> to the query
  parameter \<^verbatim>\<open>from_date\<close>, and the result of \<^verbatim>\<open>bot.send_message(chat_id, text)\<close>.
\<close>

record world =
  stop_requested :: bool
  time_now :: int
  requests_get :: "pyval \<Rightarrow> lib_exn + response"
  bot_send_message :: "string option \<Rightarrow> string \<Rightarrow> lib_exn option"

text \<open>What the program does to the outside, in order.\<close>

datatype event =
    Http_get pyval
  | Bot_send "string option" string
  | Log_critical
  | Log_exception error
  | Sleep int

section \<open>The functions of homework.py\<close>

subsection \<open>send_message\<close>

text \<open>
  Lines 49 to 61. The call of the bot is the only statement that can raise; whatever it
  raises is replaced by \<open>TelegramError\<close>.
\<close>

definition send_message ::
  "runtime \<Rightarrow> world \<Rightarrow> string \<Rightarrow> event list \<times> (error + unit)" where
  "send_message rt w message =
     ([Bot_send (TELEGRAM_CHAT_ID (environ rt)) message],
      (case bot_send_message w (TELEGRAM_CHAT_ID (environ rt)) message of
         Some x \<Rightarrow>
           (if is_Exception (Library x) then Inl (TelegramError (Library x))
            else Inl (Library x))
       | None \<Rightarrow> Inr ()))"

subsection \<open>get_api_answer\<close>

text \<open>Line 71: \<^verbatim>\<open>current_timestamp or int(time.time())\<close>.\<close>

definition from_date :: "world \<Rightarrow> pyval \<Rightarrow> pyval" where
  "from_date w current_timestamp =
     (if truthy current_timestamp then current_timestamp else PyInt (time_now w))"

text \<open>Lines 71 to 81, the body of the \<^verbatim>\<open>try\<close>.\<close>

definition get_api_answer_try :: "world \<Rightarrow> pyval \<Rightarrow> error + pyval" where
  "get_api_answer_try w current_timestamp =
     (case requests_get w (from_date w current_timestamp) of
        Inl x \<Rightarrow> Inl (Library x)
      | Inr r \<Rightarrow>
          (if status_code r \<noteq> 200
           then Inl (APIStatusCodeError (status_code r) (reason r) (body_text r))
           else (case json_body r of
                   Inl x \<Rightarrow> Inl (Library x)
                 | Inr v \<Rightarrow> Inr v)))"

text \<open>Lines 64 to 87: the \<^verbatim>\<open>try\<close> with its \<^verbatim>\<open>except Exception\<close> and \<^verbatim>\<open>else\<close>.\<close>

definition get_api_answer :: "world \<Rightarrow> pyval \<Rightarrow> event list \<times> (error + pyval)" where
  "get_api_answer w current_timestamp =
     ([Http_get (from_date w current_timestamp)],
      (case get_api_answer_try w current_timestamp of
         Inl e \<Rightarrow> (if is_Exception e then Inl (YandeksError e) else Inl e)
       | Inr v \<Rightarrow> Inr v))"

subsection \<open>check_response\<close>

text \<open>\<^verbatim>\<open>d.get(k)\<close> on a dict: the value, or \<open>None\<close> when the key is missing.\<close>

definition dict_get :: "(string \<times> pyval) list \<Rightarrow> string \<Rightarrow> pyval" where
  "dict_get kvs k = (case map_of kvs k of None \<Rightarrow> PyNone | Some v \<Rightarrow> v)"

text \<open>\<^verbatim>\<open>isinstance(x, list)\<close>.\<close>

fun is_list :: "pyval \<Rightarrow> bool" where
  "is_list (PyList xs) = True"
| "is_list v = False"

text \<open>Lines 90 to 111. The result is the list object that the caller receives.\<close>

fun check_response :: "pyval \<Rightarrow> error + pyval" where
  "check_response (PyDict kvs) =
     (if dict_get kvs ''homeworks'' = PyNone \<or> dict_get kvs ''current_date'' = PyNone
      then Inl KeyError_missing_keys
      else if \<not> is_list (dict_get kvs ''homeworks'')
      then Inl TypeError_homeworks_not_list
      else if \<not> truthy (dict_get kvs ''homeworks'')
      then Inr (PyList [])
      else Inr (dict_get kvs ''homeworks''))"
| "check_response v = Inl TypeError_no_dict"

subsection \<open>parse_status\<close>

text \<open>
  \<^verbatim>\<open>x.get(k)\<close> on any object: only a dict has the method. \<^verbatim>\<open>f'{x}'\<close> is the string itself
  for a string.
\<close>

fun py_get :: "pyval \<Rightarrow> string \<Rightarrow> error + pyval" where
  "py_get (PyDict kvs) k = Inr (dict_get kvs k)"
| "py_get v k = Inl AttributeError_no_get"

fun format_value :: "runtime \<Rightarrow> pyval \<Rightarrow> string" where
  "format_value rt (PyStr s) = s"
| "format_value rt v = py_format rt v"

text \<open>
  Lines 125 to 129: \<^verbatim>\<open>homework_status in HOMEWORK_STATUSES\<close> hashes the status, which a
  list and a dict refuse; no number, boolean or \<open>None\<close> equals a string key.
\<close>

fun lookup_verdict :: "pyval \<Rightarrow> error + string" where
  "lookup_verdict (PyStr s) =
     (case map_of HOMEWORK_STATUSES s of
        Some verdict \<Rightarrow> Inr verdict
      | None \<Rightarrow> Inl APIResponseError)"
| "lookup_verdict (PyList xs) = Inl TypeError_unhashable"
| "lookup_verdict (PyDict kvs) = Inl TypeError_unhashable"
| "lookup_verdict v = Inl APIResponseError"

text \<open>Lines 114 to 134.\<close>

definition parse_status :: "runtime \<Rightarrow> pyval \<Rightarrow> error + string" where
  "parse_status rt homework =
     (case py_get homework ''homework_name'' of
        Inl e \<Rightarrow> Inl e
      | Inr homework_name \<Rightarrow>
          (if homework_name = PyNone then Inl KeyError_no_homework_name
           else (case py_get homework ''status'' of
                   Inl e \<Rightarrow> Inl e
                 | Inr homework_status \<Rightarrow>
                     (if homework_status = PyNone then Inl KeyError_no_status
                      else (case lookup_verdict homework_status of
                              Inl e \<Rightarrow> Inl e
                            | Inr verdict \<Rightarrow>
                                Inr (message_head @ format_value rt homework_name
                                       @ message_mid @ verdict))))))"

subsection \<open>check_tokens\<close>

text \<open>Truth value of what \<^verbatim>\<open>os.getenv\<close> returned: \<open>None\<close> and the empty string are false.\<close>

fun truthy_env :: "string option \<Rightarrow> bool" where
  "truthy_env None = False"
| "truthy_env (Some s) = (s \<noteq> [])"

text \<open>Lines 137 to 143.\<close>

definition check_tokens :: "environ \<Rightarrow> bool" where
  "check_tokens env =
     list_all truthy_env [PRACTICUM_TOKEN env, TELEGRAM_TOKEN env, TELEGRAM_CHAT_ID env]"

section \<open>The polling loop\<close>

text \<open>
  The variables of the running program: the module variable \<^verbatim>\<open>state\<close>, the two local
  variables of \<^verbatim>\<open>main\<close> that the loop carries from pass to pass, and what the program has
  done to the outside so far.
\<close>

record process =
  state :: State
  current_timestamp :: pyval
  status_old :: "string option"
  trace :: "event list"

text \<open>How a thread ends. \<open>Still_running\<close>: the inputs given were used up before it ended.\<close>

datatype ending = Returned | SystemExit int | Uncaught error | Still_running

text \<open>Lines 158 and 159, and lines 190 and 191: each a single store under the lock.\<close>

definition set_running :: "State \<Rightarrow> State" where
  "set_running s = RUNNING"

definition set_stopped :: "State \<Rightarrow> State" where
  "set_stopped s = STOPPED"

definition emit :: "event list \<Rightarrow> process \<Rightarrow> process" where
  "emit evs p = p\<lparr>trace := trace p @ evs\<rparr>"

text \<open>
  Lines 171 to 173: the three calls that produce \<^verbatim>\<open>response\<close> and \<^verbatim>\<open>status\<close>. The object
  that \<^verbatim>\<open>check_response\<close> returns is passed to \<^verbatim>\<open>parse_status\<close> as it is.
\<close>

definition poll :: "runtime \<Rightarrow> world \<Rightarrow> pyval \<Rightarrow> error + pyval \<times> string" where
  "poll rt w cursor =
     (case snd (get_api_answer w cursor) of
        Inl e \<Rightarrow> Inl e
      | Inr response \<Rightarrow>
          (case check_response response of
             Inl e \<Rightarrow> Inl e
           | Inr homework \<Rightarrow>
               (case parse_status rt homework of
                  Inl e \<Rightarrow> Inl e
                | Inr status \<Rightarrow> Inr (response, status))))"

text \<open>Line 177.\<close>

definition advance :: "pyval \<Rightarrow> process \<Rightarrow> error option \<times> process" where
  "advance response p =
     (case py_get response ''current_date'' of
        Inl e \<Rightarrow> (Some e, p)
      | Inr d \<Rightarrow> (None, p\<lparr>current_timestamp := d\<rparr>))"

text \<open>
  Lines 174 to 177. The result is the exception that leaves the block, if any, and the
  variables as they are at that moment.
\<close>

definition notify_and_advance ::
  "runtime \<Rightarrow> world \<Rightarrow> pyval \<Rightarrow> string \<Rightarrow> process \<Rightarrow> error option \<times> process" where
  "notify_and_advance rt w response status p =
     (if Some status \<noteq> status_old p
      then (case send_message rt w status of
              (evs, Inl e) \<Rightarrow> (Some e, emit evs p)
            | (evs, Inr u) \<Rightarrow> advance response (emit evs p\<lparr>status_old := Some status\<rparr>))
      else advance response p)"

text \<open>Lines 171 to 177, the body of the \<^verbatim>\<open>try\<close>.\<close>

definition try_body :: "runtime \<Rightarrow> world \<Rightarrow> process \<Rightarrow> error option \<times> process" where
  "try_body rt w p =
     (let p1 = emit (fst (get_api_answer w (current_timestamp p))) p
      in case poll rt w (current_timestamp p) of
           Inl e \<Rightarrow> (Some e, p1)
         | Inr (response, status) \<Rightarrow> notify_and_advance rt w response status p1)"

text \<open>
  Lines 178 to 181: what follows the body. A \<open>TelegramError\<close> is logged and the pass goes
  on to the sleep; any other exception leaves the loop.
\<close>

definition except_and_sleep :: "error option \<times> process \<Rightarrow> error option \<times> process" where
  "except_and_sleep r =
     (case r of
        (None, p) \<Rightarrow> (None, emit [Sleep RETRY_TIME] p)
      | (Some e, p) \<Rightarrow>
          (if is_TelegramError e
           then (None, emit [Log_exception e, Sleep RETRY_TIME] p)
           else (Some e, p)))"

definition cycle :: "runtime \<Rightarrow> world \<Rightarrow> process \<Rightarrow> error option \<times> process" where
  "cycle rt w p = except_and_sleep (try_body rt w p)"

text \<open>
  Lines 165 to 181. One element of the list per pass; the control thread's store, if it
  happened since the last check, is in place when the state is read.
\<close>

fun main_loop :: "runtime \<Rightarrow> world list \<Rightarrow> process \<Rightarrow> ending \<times> process" where
  "main_loop rt [] p = (Still_running, p)"
| "main_loop rt (w # ws) p =
     (let p0 = (if stop_requested w then p\<lparr>state := set_stopped (state p)\<rparr> else p)
      in if state p0 = STOPPED then (Returned, p0)
         else (case cycle rt w p0 of
                 (Some e, p') \<Rightarrow> (Uncaught e, p')
               | (None, p') \<Rightarrow> main_loop rt ws p'))"

text \<open>
  Lines 146 to 181. \<open>st\<close> is the module variable \<^verbatim>\<open>state\<close> when \<^verbatim>\<open>main\<close> reaches line 158:
  \<open>INITIAL\<close>, or \<open>STOPPED\<close> when the control thread, started before \<^verbatim>\<open>main\<close>, has already
  stored it. \<^verbatim>\<open>sys.exit\<close> with a string makes the exit status 1.
\<close>

definition main :: "runtime \<Rightarrow> world list \<Rightarrow> State \<Rightarrow> ending \<times> State \<times> event list" where
  "main rt ws st =
     (if \<not> check_tokens (environ rt) then (SystemExit 1, st, [Log_critical])
      else (case telegram_Bot rt (TELEGRAM_TOKEN (environ rt)) of
              Some x \<Rightarrow> (Uncaught (Library x), set_running st, [])
            | None \<Rightarrow>
                (case main_loop rt ws
                        \<lparr>state = set_running st,
                         current_timestamp = PyInt (start_time rt),
                         status_old = None,
                         trace = []\<rparr> of
                   (x, p) \<Rightarrow> (x, state p, trace p))))"

text \<open>
  Lines 184 to 192. One element of the list per line that \<^verbatim>\<open>input\<close> returns; with no line
  left the thread stays blocked in \<^verbatim>\<open>input\<close>.
\<close>

fun repl :: "string list \<Rightarrow> State \<Rightarrow> ending \<times> State" where
  "repl [] st = (Still_running, st)"
| "repl (command # rest) st =
     (if command = ''s'' then (Returned, set_stopped st) else repl rest st)"

section \<open>Inputs used in the examples\<close>

definition env_ok :: environ where
  "env_ok = [''PRACTICUM_TOKEN'' \<mapsto> ''p'', ''TELEGA_TOKEN'' \<mapsto> ''t'', ''MY_ID'' \<mapsto> ''42'']"

definition rt_ok :: runtime where
  "rt_ok = \<lparr>environ = env_ok, py_format = (\<lambda>v. ''?''),
            telegram_Bot = (\<lambda>t. None), start_time = 500\<rparr>"

definition answering :: "lib_exn + response \<Rightarrow> world" where
  "answering a = \<lparr>stop_requested = False, time_now = 700,
                  requests_get = (\<lambda>d. a), bot_send_message = (\<lambda>c m. None)\<rparr>"

definition http_500 :: response where
  "http_500 = \<lparr>status_code = 500, reason = ''Internal Server Error'',
               body_text = ''oops'', json_body = Inl (Lib_exn ''JSONDecodeError'')\<rparr>"

definition http_200 :: "pyval \<Rightarrow> response" where
  "http_200 v = \<lparr>status_code = 200, reason = ''OK'', body_text = [], json_body = Inr v\<rparr>"

definition hw1_approved :: pyval where
  "hw1_approved = PyDict [(''homework_name'', PyStr ''hw1''), (''status'', PyStr ''approved'')]"

definition payload_A :: pyval where
  "payload_A = PyDict [(''homeworks'', PyList [hw1_approved]), (''current_date'', PyInt 1000)]"

definition payload_B :: pyval where
  "payload_B = PyDict [(''homeworks'', PyList []), (''current_date'', PyInt 1000)]"

definition p_start :: process where
  "p_start = \<lparr>state = RUNNING, current_timestamp = PyInt 500, status_old = None, trace = []\<rparr>"

definition env_empty_id :: environ where
  "env_empty_id = [''PRACTICUM_TOKEN'' \<mapsto> ''p'', ''TELEGA_TOKEN'' \<mapsto> ''t'', ''MY_ID'' \<mapsto> []]"

definition env_no_bot_token :: environ where
  "env_no_bot_token = [''PRACTICUM_TOKEN'' \<mapsto> ''p'', ''MY_ID'' \<mapsto> ''42'']"


section \<open>Which exceptions the steps of a pass can raise\<close>

lemma get_api_answer_error:
  "snd (get_api_answer w c) = Inl e \<Longrightarrow> \<exists>cause. e = YandeksError cause"
  by (auto simp: get_api_answer_def split: sum.splits)

lemma check_response_error:
  "check_response v = Inl e \<Longrightarrow>
     e \<in> {TypeError_no_dict, KeyError_missing_keys, TypeError_homeworks_not_list}"
  by (cases v) (auto split: if_splits)

lemma check_response_result: "check_response v = Inr h \<Longrightarrow> is_list h"
  by (cases v) (auto split: if_splits elim: is_list.elims)

lemma lookup_verdict_error:
  "lookup_verdict v = Inl e \<Longrightarrow> e \<in> {APIResponseError, TypeError_unhashable}"
  by (cases v) (auto split: option.splits)

lemma py_get_error: "py_get v k = Inl e \<Longrightarrow> e = AttributeError_no_get"
  by (cases v) auto

lemma parse_status_error:
  "parse_status rt h = Inl e \<Longrightarrow>
     e \<in> {AttributeError_no_get, KeyError_no_homework_name, KeyError_no_status,
          APIResponseError, TypeError_unhashable}"
  by (auto simp: parse_status_def split: sum.splits if_splits
           dest: py_get_error lookup_verdict_error)

lemma parse_status_of_list: "is_list h \<Longrightarrow> parse_status rt h = Inl AttributeError_no_get"
  by (cases h) (simp_all add: parse_status_def)

lemma poll_error_not_telegram: "poll rt w c = Inl e \<Longrightarrow> \<not> is_TelegramError e"
  by (auto simp: poll_def split: sum.splits
           dest!: get_api_answer_error check_response_error parse_status_error)

text \<open>
  Since \<^verbatim>\<open>parse_status\<close> is given the list, the three calls of lines 171 to 173 never
  all succeed.
\<close>

lemma poll_raises: "\<exists>e. poll rt w c = Inl e"
  by (auto simp: poll_def split: sum.splits
           dest!: check_response_result parse_status_of_list[where rt = rt])

lemma check_tokens_iff:
  "check_tokens env =
     (\<forall>k \<in> {''PRACTICUM_TOKEN'', ''TELEGA_TOKEN'', ''MY_ID''}. env k \<noteq> None \<and> env k \<noteq> Some [])"
  by (auto simp: check_tokens_def PRACTICUM_TOKEN_def TELEGRAM_TOKEN_def TELEGRAM_CHAT_ID_def
           elim: truthy_env.elims)

text \<open>
  The loop never stores into \<^verbatim>\<open>state\<close>: after any number of passes the state is the one
  at entry, or \<open>STOPPED\<close> by the control thread. The control thread ends with \<open>STOPPED\<close>
  as soon as one of its lines is \<^verbatim>\<open>s\<close>.
\<close>

lemma cycle_keeps_state: "state (snd (cycle rt w p)) = state p"
  by (auto simp: cycle_def try_body_def except_and_sleep_def notify_and_advance_def
        advance_def emit_def send_message_def Let_def
        split: sum.splits prod.splits option.splits)

lemma main_loop_state:
  "state (snd (main_loop rt ws p)) = state p \<or> state (snd (main_loop rt ws p)) = STOPPED"
proof (induction ws arbitrary: p)
  case Nil
  then show ?case by simp
next
  case (Cons w ws)
  let ?p0 = "if stop_requested w then p\<lparr>state := set_stopped (state p)\<rparr> else p"
  have s0: "state ?p0 = state p \<or> state ?p0 = STOPPED"
    by (simp add: set_stopped_def)
  show ?case
  proof (cases "state ?p0 = STOPPED")
    case True
    then show ?thesis by (simp add: Let_def)
  next
    case False
    obtain r p' where c: "cycle rt w ?p0 = (r, p')"
      by (cases "cycle rt w ?p0")
    have s1: "state p' = state ?p0"
      using cycle_keeps_state[of rt w ?p0] c by simp
    show ?thesis
    proof (cases r)
      case None
      then show ?thesis
        using False c s0 s1 Cons.IH[of p'] by (auto simp: Let_def)
    next
      case (Some e)
      then show ?thesis
        using False c s0 s1 by (auto simp: Let_def)
    qed
  qed
qed

lemma repl_stops: "''s'' \<in> set commands \<Longrightarrow> repl commands st = (Returned, STOPPED)"
  by (induction commands) (auto simp: set_stopped_def)

text \<open>
  A pass that starts ends \<^verbatim>\<open>main\<close> with an exception, after its one request; so a run
  of the loop makes at most one request and never calls the bot, sleeps or logs.
\<close>

lemma pass_ends_main:
  assumes "\<not> stop_requested w" and "state p \<noteq> STOPPED"
  shows "\<exists>e. main_loop rt (w # ws) p =
           (Uncaught e,
            p\<lparr>trace := trace p @ [Http_get (from_date w (current_timestamp p))]\<rparr>)"
proof -
  obtain e where e: "poll rt w (current_timestamp p) = Inl e"
    using poll_raises by blast
  have "\<not> is_TelegramError e"
    using e by (rule poll_error_not_telegram)
  with e assms show ?thesis
    by (simp add: cycle_def try_body_def except_and_sleep_def get_api_answer_def Let_def
          emit_def)
qed

lemma main_loop_trace:
  "trace (snd (main_loop rt ws p)) = trace p
   \<or> (\<exists>d. trace (snd (main_loop rt ws p)) = trace p @ [Http_get d])"
proof (cases ws)
  case Nil
  then show ?thesis by simp
next
  case (Cons w ws')
  show ?thesis
  proof (cases "stop_requested w \<or> state p = STOPPED")
    case True
    then show ?thesis
      using Cons by (auto simp: set_stopped_def Let_def)
  next
    case False
    then show ?thesis
      using Cons pass_ends_main[of w p rt ws'] by auto
  qed
qed

text \<open>
  What the two parts of the loop do when they are reached. The check at the top returns
  when it finds \<open>STOPPED\<close>. Lines 174 to 177 call the bot exactly when the message
  differs from the last notified one, and store the message only after the call has
  succeeded.
\<close>

lemma check_sees_stopped:
  "stop_requested w \<or> state p = STOPPED \<Longrightarrow>
     main_loop rt (w # ws) p = (Returned, p\<lparr>state := STOPPED\<rparr>)"
  by (auto simp: set_stopped_def Let_def)

lemma notify_and_advance_trace:
  "trace (snd (notify_and_advance rt w response status p)) =
     trace p @ (if Some status \<noteq> status_old p
                then [Bot_send (TELEGRAM_CHAT_ID (environ rt)) status] else [])"
  by (auto simp: notify_and_advance_def send_message_def advance_def emit_def
        split: sum.splits prod.splits option.splits)

lemma notify_and_advance_status_old:
  "status_old (snd (notify_and_advance rt w response status p)) =
     (if Some status \<noteq> status_old p
         \<and> bot_send_message w (TELEGRAM_CHAT_ID (environ rt)) status = None
      then Some status else status_old p)"
  by (auto simp: notify_and_advance_def send_message_def advance_def emit_def
        split: sum.splits prod.splits option.splits)

lemmas run_defs = cycle_def try_body_def except_and_sleep_def get_api_answer_def Let_def
  poll_def get_api_answer_try_def answering_def http_500_def http_200_def p_start_def
  from_date_def emit_def set_stopped_def set_running_def

lemmas data_defs = payload_A_def payload_B_def hw1_approved_def dict_get_def
  parse_status_def HOMEWORK_STATUSES_def rt_ok_def env_ok_def

lemmas token_defs = check_tokens_def PRACTICUM_TOKEN_def TELEGRAM_TOKEN_def
  TELEGRAM_CHAT_ID_def

section \<open>The claims\<close>

subsection \<open>C1: errors of fetching, validating and parsing\<close>

text \<open>
  C1 says that an error of fetching, validating or parsing that is not a notification
  failure is caught and logged by the loop, which drops the pass without moving the
  cursor and goes on to the next pass. The handler of line 178 names \<open>TelegramError\<close>
  only. Below, the upstream answers HTTP 500 twice: the first pass ends \<^verbatim>\<open>main\<close> with
  the exception, nothing is logged, and the second request is never made.
\<close>

theorem http_500_ends_loop:
  "main_loop rt_ok [answering (Inr http_500), answering (Inr http_500)] p_start =
     (Uncaught (YandeksError (APIStatusCodeError 500 ''Internal Server Error'' ''oops'')),
      p_start\<lparr>trace := [Http_get (PyInt 500)]\<rparr>)"
  by (simp add: run_defs)

text \<open>
  C1 as the code has it: when the three calls of a pass raise an error, it is not a
  \<open>TelegramError\<close>, the loop does not catch it, and \<^verbatim>\<open>main\<close> ends with that error; the
  cursor and the last notified message are as before the pass, and the only thing done
  is the one request.
\<close>

theorem uncaught_error_ends_loop:
  assumes "poll rt w (current_timestamp p) = Inl e"
    and "\<not> stop_requested w" and "state p \<noteq> STOPPED"
  shows "\<not> is_TelegramError e \<and>
         main_loop rt (w # ws) p =
           (Uncaught e,
            p\<lparr>trace := trace p @ [Http_get (from_date w (current_timestamp p))]\<rparr>)"
  using assms poll_error_not_telegram[OF assms(1)]
  by (simp add: cycle_def try_body_def except_and_sleep_def get_api_answer_def Let_def
        emit_def)

text \<open>The same on an answer without the two keys, followed by a good answer.\<close>

theorem uncaught_error_ends_loop_witness:
  "poll rt_ok (answering (Inr (http_200 (PyDict [])))) (current_timestamp p_start)
     = Inl KeyError_missing_keys
   \<and> \<not> stop_requested (answering (Inr (http_200 (PyDict []))))
   \<and> state p_start \<noteq> STOPPED
   \<and> main_loop rt_ok
        [answering (Inr (http_200 (PyDict []))), answering (Inr (http_200 payload_A))]
        p_start
       = (Uncaught KeyError_missing_keys, p_start\<lparr>trace := [Http_get (PyInt 500)]\<rparr>)"
proof -
  let ?w = "answering (Inr (http_200 (PyDict [])))"
  have h1: "poll rt_ok ?w (current_timestamp p_start) = Inl KeyError_missing_keys"
    by (simp add: run_defs data_defs)
  have h2: "\<not> stop_requested ?w"
    by (simp add: answering_def)
  have h3: "state p_start \<noteq> STOPPED"
    by (simp add: p_start_def)
  from uncaught_error_ends_loop[OF h1 h2 h3, of "[answering (Inr (http_200 payload_A))]"]
    h1 h2 h3
  show ?thesis
    by (simp add: p_start_def from_date_def)
qed

subsection \<open>C2: the status parser and the first record\<close>

text \<open>
  C2 says that, when validation returns a non-empty list, the loop calls the status
  parser on the first record of the list and gets a message with that record's
  \<^verbatim>\<open>homework_name\<close> and the sentence of its status. On the answer of scenario A,
  \<^verbatim>\<open>parse_status\<close> applied to the record gives that message; but line 173 passes the whole
  list, \<^verbatim>\<open>parse_status\<close> raises on it, and \<^verbatim>\<open>main\<close> ends with the exception.
\<close>

theorem scenario_A_parses_the_list:
  "check_response payload_A = Inr (PyList [hw1_approved])
   \<and> parse_status rt_ok hw1_approved
       = Inr (message_head @ ''hw1'' @ message_mid @ verdict_approved)
   \<and> parse_status rt_ok (PyList [hw1_approved]) = Inl AttributeError_no_get
   \<and> main_loop rt_ok [answering (Inr (http_200 payload_A))] p_start
       = (Uncaught AttributeError_no_get, p_start\<lparr>trace := [Http_get (PyInt 500)]\<rparr>)"
  by (simp add: run_defs data_defs)

subsection \<open>C3: STOPPED and the startup store\<close>

text \<open>
  C3 says that the state, once a stop request has made it \<open>STOPPED\<close>, never leaves
  \<open>STOPPED\<close>, however the request interleaves with the startup store of \<open>RUNNING\<close>. The
  control thread is started before \<^verbatim>\<open>main\<close>; when it reads \<^verbatim>\<open>s\<close> before \<^verbatim>\<open>main\<close> reaches
  line 158, the store of line 159 replaces \<open>STOPPED\<close> by \<open>RUNNING\<close>, the control thread
  has returned, and the loop polls.
\<close>

theorem startup_overwrites_stopped:
  "repl [''s''] INITIAL = (Returned, STOPPED)
   \<and> set_running (snd (repl [''s''] INITIAL)) = RUNNING
   \<and> main rt_ok [] (snd (repl [''s''] INITIAL)) = (Still_running, RUNNING, [])
   \<and> main rt_ok [answering (Inr http_500)] (snd (repl [''s''] INITIAL))
       = (Uncaught (YandeksError (APIStatusCodeError 500 ''Internal Server Error'' ''oops'')),
          RUNNING, [Http_get (PyInt 500)])"
  by (simp add: main_def token_defs run_defs data_defs)

subsection \<open>C4: a response that is not 200\<close>

text \<open>
  C4 says that on a response whose status is not 200 \<^verbatim>\<open>get_api_answer\<close> fails with an
  \<open>APIStatusCodeError\<close>, a kind other than the connection error, and that this is what the
  caller receives. The \<^verbatim>\<open>raise\<close> of line 75 is inside the \<^verbatim>\<open>try\<close> whose handler catches
  every \<^verbatim>\<open>Exception\<close>: on HTTP 500 the caller receives the connection error
  \<open>YandeksError\<close>, the \<open>APIStatusCodeError\<close> being its cause.
\<close>

theorem http_500_raises_YandeksError:
  "get_api_answer (answering (Inr http_500)) (PyInt 500) =
     ([Http_get (PyInt 500)],
      Inl (YandeksError (APIStatusCodeError 500 ''Internal Server Error'' ''oops'')))"
  by (simp add: run_defs)

text \<open>
  C4 as the code has it: on every response whose status is not 200, \<^verbatim>\<open>get_api_answer\<close>
  makes the one request and fails with \<open>YandeksError\<close>, whose cause is the
  \<open>APIStatusCodeError\<close> with the status code, the reason and the body of the response;
  that is what the caller receives.
\<close>

theorem non_200_raises_YandeksError:
  assumes "requests_get w (from_date w cursor) = Inr r" and "status_code r \<noteq> 200"
  shows "get_api_answer w cursor =
           ([Http_get (from_date w cursor)],
            Inl (YandeksError (APIStatusCodeError (status_code r) (reason r) (body_text r))))"
  using assms by (simp add: get_api_answer_def get_api_answer_try_def)

theorem non_200_raises_YandeksError_witness:
  "requests_get (answering (Inr (http_500\<lparr>status_code := 404, reason := ''Not Found''\<rparr>)))
       (from_date (answering (Inr (http_500\<lparr>status_code := 404, reason := ''Not Found''\<rparr>)))
          PyNone)
     = Inr (http_500\<lparr>status_code := 404, reason := ''Not Found''\<rparr>)
   \<and> status_code (http_500\<lparr>status_code := 404, reason := ''Not Found''\<rparr>) \<noteq> 200
   \<and> get_api_answer
        (answering (Inr (http_500\<lparr>status_code := 404, reason := ''Not Found''\<rparr>))) PyNone
       = ([Http_get (PyInt 700)],
          Inl (YandeksError (APIStatusCodeError 404 ''Not Found'' ''oops'')))"
proof -
  let ?r = "http_500\<lparr>status_code := 404, reason := ''Not Found''\<rparr>"
  have h1: "requests_get (answering (Inr ?r)) (from_date (answering (Inr ?r)) PyNone) = Inr ?r"
    by (simp add: answering_def)
  have h2: "status_code ?r \<noteq> 200"
    by simp
  from non_200_raises_YandeksError[OF h1 h2] h1 h2
  show ?thesis
    by (simp add: from_date_def answering_def http_500_def)
qed

subsection \<open>C5: an empty list of homeworks\<close>

text \<open>
  C5 says that for an answer with an empty \<^verbatim>\<open>homeworks\<close> and a \<^verbatim>\<open>current_date\<close> the
  validation returns an empty list, and the pass sends nothing, raises nothing and moves
  the cursor to \<^verbatim>\<open>current_date\<close>. On the answer of scenario B validation returns the empty
  list; the pass then gives it to \<^verbatim>\<open>parse_status\<close>, which raises, and \<^verbatim>\<open>main\<close> ends with
  the cursor still at 500.
\<close>

theorem scenario_B_ends_loop:
  "check_response payload_B = Inr (PyList [])
   \<and> main_loop rt_ok [answering (Inr (http_200 payload_B))] p_start
       = (Uncaught AttributeError_no_get, p_start\<lparr>trace := [Http_get (PyInt 500)]\<rparr>)
   \<and> current_timestamp
        (snd (main_loop rt_ok [answering (Inr (http_200 payload_B))] p_start)) = PyInt 500"
  by (simp add: run_defs data_defs)

subsection \<open>C6: when a notification is sent\<close>

text \<open>
  C6 says that in every poll cycle a notification is sent exactly when the freshly parsed
  message differs from the last notified one, which then becomes that message. Startup
  followed by two answers of scenario A: the message of the record differs from the last
  notified message, which is \<open>None\<close>; but the first pass raises in \<^verbatim>\<open>parse_status\<close>,
  before line 174, and \<^verbatim>\<open>main\<close> ends having made one request and no call of the bot.
\<close>

theorem scenario_A_sends_nothing:
  "parse_status rt_ok hw1_approved
     = Inr (message_head @ ''hw1'' @ message_mid @ verdict_approved)
   \<and> main rt_ok [answering (Inr (http_200 payload_A)), answering (Inr (http_200 payload_A))]
        INITIAL
       = (Uncaught AttributeError_no_get, RUNNING, [Http_get (PyInt 500)])"
  by (simp add: main_def token_defs run_defs data_defs)

subsection \<open>C7: a stop is seen at the top of the loop\<close>

text \<open>
  C7 says that a stop requested at any point is seen by the loop no later than the start
  of its next pass, where \<^verbatim>\<open>main\<close> returns without an error. A stop stored before the
  first check is seen there. A stop stored during the first pass, on the answer of
  scenario A, is never seen: the pass raises, there is no next check, and \<^verbatim>\<open>main\<close> ends
  with the exception.
\<close>

theorem stop_during_pass_not_seen:
  "main_loop rt_ok
     [answering (Inr (http_200 payload_A))\<lparr>stop_requested := True\<rparr>] p_start
     = (Returned, p_start\<lparr>state := STOPPED\<rparr>)
   \<and> main_loop rt_ok
        [answering (Inr (http_200 payload_A)),
         answering (Inr (http_200 payload_A))\<lparr>stop_requested := True\<rparr>] p_start
       = (Uncaught AttributeError_no_get, p_start\<lparr>trace := [Http_get (PyInt 500)]\<rparr>)"
  by (simp add: run_defs data_defs)

subsection \<open>C8: a missing configuration value\<close>

text \<open>
  C8: when one of the three configuration values is absent, \<^verbatim>\<open>main\<close> logs the critical
  message and leaves through \<^verbatim>\<open>sys.exit\<close> with status 1; the state is what it was, so
  \<open>RUNNING\<close> is never stored, and nothing else is done: the loop is not entered.
\<close>

theorem missing_token_exits:
  assumes "PRACTICUM_TOKEN (environ rt) = None \<or> TELEGRAM_TOKEN (environ rt) = None
           \<or> TELEGRAM_CHAT_ID (environ rt) = None"
  shows "main rt ws st = (SystemExit 1, st, [Log_critical])"
  using assms by (auto simp: main_def check_tokens_def)

theorem missing_token_exits_witness:
  "TELEGRAM_TOKEN (environ (rt_ok\<lparr>environ := env_no_bot_token\<rparr>)) = None
   \<and> main (rt_ok\<lparr>environ := env_no_bot_token\<rparr>) [answering (Inr (http_200 payload_A))] INITIAL
       = (SystemExit 1, INITIAL, [Log_critical])"
proof -
  have h: "TELEGRAM_TOKEN (environ (rt_ok\<lparr>environ := env_no_bot_token\<rparr>)) = None"
    by (simp add: TELEGRAM_TOKEN_def env_no_bot_token_def)
  from missing_token_exits[of "rt_ok\<lparr>environ := env_no_bot_token\<rparr>"
      "[answering (Inr (http_200 payload_A))]" INITIAL] h
  show ?thesis
    by simp
qed

subsection \<open>C9: an empty configuration value\<close>

text \<open>
  C9: when one of the environment variables \<^verbatim>\<open>PRACTICUM_TOKEN\<close>, \<^verbatim>\<open>TELEGA_TOKEN\<close> and
  \<^verbatim>\<open>MY_ID\<close> is not set or is set to the empty string, \<^verbatim>\<open>check_tokens\<close> is false and
  \<^verbatim>\<open>main\<close> leaves through \<^verbatim>\<open>sys.exit\<close> before anything else.
\<close>

theorem empty_token_is_absent:
  assumes "k \<in> {''PRACTICUM_TOKEN'', ''TELEGA_TOKEN'', ''MY_ID''}"
    and "environ rt k = None \<or> environ rt k = Some []"
  shows "\<not> check_tokens (environ rt) \<and> main rt ws st = (SystemExit 1, st, [Log_critical])"
  using assms by (auto simp: main_def check_tokens_iff)

theorem empty_token_is_absent_witness:
  "''MY_ID'' \<in> {''PRACTICUM_TOKEN'', ''TELEGA_TOKEN'', ''MY_ID''}
   \<and> environ (rt_ok\<lparr>environ := env_empty_id\<rparr>) ''MY_ID'' = Some []
   \<and> \<not> check_tokens (environ (rt_ok\<lparr>environ := env_empty_id\<rparr>))
   \<and> main (rt_ok\<lparr>environ := env_empty_id\<rparr>) [answering (Inr (http_200 payload_A))] INITIAL
       = (SystemExit 1, INITIAL, [Log_critical])"
proof -
  have h1: "''MY_ID'' \<in> {''PRACTICUM_TOKEN'', ''TELEGA_TOKEN'', ''MY_ID''}"
    by simp
  have h2: "environ (rt_ok\<lparr>environ := env_empty_id\<rparr>) ''MY_ID'' = Some []"
    by (simp add: env_empty_id_def)
  from empty_token_is_absent[OF h1, of "rt_ok\<lparr>environ := env_empty_id\<rparr>"
      "[answering (Inr (http_200 payload_A))]" INITIAL] h1 h2
  show ?thesis
    by simp
qed

subsection \<open>C10: the query parameter from_date\<close>



end
